theory Spec2Isabelle
  imports Complex_Main
begin

section \<open>Python library functions used by the handlers\<close>

text \<open>\<^verbatim>\<open>str.endswith\<close>.\<close>

definition endswith :: "string \<Rightarrow> string \<Rightarrow> bool" where
  "endswith s suf \<longleftrightarrow> length suf \<le> length s \<and> drop (length s - length suf) s = suf"

text \<open>
  \<^verbatim>\<open>str.replace(old, new)\<close>: every non-overlapping occurrence of \<open>old\<close>, from the left, is
  replaced; an empty \<open>old\<close> matches before every character and at the end.
\<close>

function str_replace :: "string \<Rightarrow> string \<Rightarrow> string \<Rightarrow> string" where
  "str_replace s old new =
     (if old = [] then new @ concat (map (\<lambda>c. c # new) s)
      else if s = [] then []
      else if take (length old) s = old then new @ str_replace (drop (length old) s) old new
      else hd s # str_replace (tl s) old new)"
  by pat_completeness auto
termination
  by (relation "measure (\<lambda>(s, old, new). length s)") auto

declare str_replace.simps [simp del]

text \<open>The decimal rendering of a non-negative integer, as an f-string prints it.\<close>

fun str_of_nat :: "nat \<Rightarrow> string" where
  "str_of_nat n =
     (if n < 10 then [''0123456789'' ! n]
      else str_of_nat (n div 10) @ [''0123456789'' ! (n mod 10)])"

declare str_of_nat.simps [simp del]

text \<open>
  \<^verbatim>\<open>Path(name).stem\<close> on a POSIX path: the last component that is neither empty nor a
  single dot, cut at its last dot unless that dot is the first or the last character.
\<close>

fun split_on :: "char \<Rightarrow> string \<Rightarrow> string list" where
  "split_on c [] = [[]]"
| "split_on c (x # xs) =
     (if x = c then [] # split_on c xs
      else (case split_on c xs of [] \<Rightarrow> [[x]] | w # ws \<Rightarrow> (x # w) # ws))"

definition path_name :: "string \<Rightarrow> string" where
  "path_name s =
     (case filter (\<lambda>p. p \<noteq> [] \<and> p \<noteq> ''.'') (split_on (CHR ''/'') s) of
        [] \<Rightarrow> []
      | p # ps \<Rightarrow> last (p # ps))"

fun rfind :: "char \<Rightarrow> string \<Rightarrow> nat option" where
  "rfind c [] = None"
| "rfind c (x # xs) =
     (case rfind c xs of
        Some i \<Rightarrow> Some (Suc i)
      | None \<Rightarrow> if x = c then Some 0 else None)"

definition path_stem :: "string \<Rightarrow> string" where
  "path_stem s =
     (let name = path_name s in
      case rfind (CHR ''.'') name of
        None \<Rightarrow> name
      | Some i \<Rightarrow> if 0 < i \<and> i < length name - 1 then take i name else name)"

section \<open>Exceptions and responses\<close>

text \<open>
  \<open>HTTPException\<close> is the framework's exception, a subclass of \<open>Exception\<close>; every other
  exception is kept by its message. \<open>str_exn\<close> is Python's \<^verbatim>\<open>str(e)\<close>: the message, and for
  an \<open>HTTPException\<close> the status code, a colon and the detail.
\<close>

datatype exn = HTTPException nat string | Exception string

fun str_exn :: "exn \<Rightarrow> string" where
  "str_exn (HTTPException status_code detail) = str_of_nat status_code @ '': '' @ detail"
| "str_exn (Exception msg) = msg"

text \<open>\<^verbatim>\<open>FileResponse(path, media_type=..., filename=...)\<close>.\<close>

datatype file_response = FileResponse string string string

text \<open>A handler returns a file response or raises.\<close>

type_synonym outcome = "exn + file_response"

definition and_then :: "exn + 'a \<Rightarrow> ('a \<Rightarrow> exn + 'b) \<Rightarrow> exn + 'b" where
  "and_then m f = (case m of Inl e \<Rightarrow> Inl e | Inr x \<Rightarrow> f x)"

section \<open>The file system\<close>

type_synonym path = string
type_synonym bytes = "nat list"

datatype fs_event = Created path | Wrote path | Unlinked path

record world =
  files :: "path \<rightharpoonup> bytes"
  events :: "fs_event list"

definition create_file :: "path \<Rightarrow> world \<Rightarrow> world" where
  "create_file p w = w\<lparr>files := (files w)(p \<mapsto> []), events := events w @ [Created p]\<rparr>"

definition write_file :: "path \<Rightarrow> bytes \<Rightarrow> world \<Rightarrow> world" where
  "write_file p b w = w\<lparr>files := (files w)(p \<mapsto> b), events := events w @ [Wrote p]\<rparr>"

definition unlink :: "path \<Rightarrow> world \<Rightarrow> world" where
  "unlink p w = w\<lparr>files := (files w)(p := None), events := events w @ [Unlinked p]\<rparr>"

definition path_exists :: "path \<Rightarrow> world \<Rightarrow> bool" where
  "path_exists p w \<longleftrightarrow> files w p \<noteq> None"

text \<open>
  The status of the HTTP response, given what the handler returned or raised and the file
  system it left. The framework answers a raised \<open>HTTPException\<close> with its status code and
  any other exception with 500; a returned \<open>FileResponse\<close> is sent with status 200 when its
  file exists, and fails with a \<open>RuntimeError\<close>, hence 500, when it does not.
\<close>

fun http_status :: "outcome \<times> world \<Rightarrow> nat" where
  "http_status (Inr (FileResponse p media_type name), w) = (if path_exists p w then 200 else 500)"
| "http_status (Inl (HTTPException status_code detail), w) = status_code"
| "http_status (Inl (Exception msg), w) = 500"

fun http_detail :: "outcome \<times> world \<Rightarrow> string" where
  "http_detail (Inl (HTTPException status_code detail), w) = detail"
| "http_detail other = []"

text \<open>
  What the host does when the upload is saved: \<open>mktemp\<close> is the outcome of
  \<^verbatim>\<open>NamedTemporaryFile(delete=False, suffix='.ply')\<close> (an exception, or the name it chose
  without the suffix), \<open>write_error\<close> the exception \<^verbatim>\<open>tmp_input.write(content)\<close> raises, if
  any.
\<close>

record io_env =
  mktemp :: "exn + string"
  write_error :: "exn option"

record request =
  filename :: string
  content :: bytes
  return_format_query :: "string option"

section \<open>The geometry library\<close>

text \<open>
  The handlers drive Open3D and NumPy, which are not part of the repository. Their
  operations are parameters of the model: each takes the object it is called on first and
  returns the new object where Python mutates in place, or the exception it raises.
  \<open>read_point_cloud\<close> receives the path and the bytes found there; the writers return the
  bytes they put at the path, or \<open>None\<close> when they return \<^verbatim>\<open>False\<close> without writing.
\<close>

record ('pcd, 'mesh) o3d =
  read_point_cloud :: "path \<Rightarrow> bytes option \<Rightarrow> exn + 'pcd"
  npoints :: "'pcd \<Rightarrow> nat"
  remove_statistical_outlier :: "'pcd \<Rightarrow> nat \<Rightarrow> real \<Rightarrow> exn + 'pcd"
  remove_radius_outlier :: "'pcd \<Rightarrow> nat \<Rightarrow> real \<Rightarrow> exn + 'pcd"
  estimate_normals :: "'pcd \<Rightarrow> real \<Rightarrow> nat \<Rightarrow> exn + 'pcd"
  orient_normals_consistent_tangent_plane :: "'pcd \<Rightarrow> nat \<Rightarrow> exn + 'pcd"
  create_from_point_cloud_poisson ::
    "'pcd \<Rightarrow> nat \<Rightarrow> nat \<Rightarrow> real \<Rightarrow> bool \<Rightarrow> exn + 'mesh \<times> real list"
  quantile :: "real list \<Rightarrow> real \<Rightarrow> real"
  remove_vertices_by_mask :: "'mesh \<Rightarrow> bool list \<Rightarrow> exn + 'mesh"
  remove_degenerate_triangles :: "'mesh \<Rightarrow> exn + 'mesh"
  remove_duplicated_triangles :: "'mesh \<Rightarrow> exn + 'mesh"
  remove_duplicated_vertices :: "'mesh \<Rightarrow> exn + 'mesh"
  remove_non_manifold_edges :: "'mesh \<Rightarrow> exn + 'mesh"
  filter_smooth_simple :: "'mesh \<Rightarrow> nat \<Rightarrow> exn + 'mesh"
  fill_holes :: "'mesh \<Rightarrow> exn + 'mesh"
  write_triangle_mesh :: "path \<Rightarrow> 'mesh \<Rightarrow> exn + bytes option"
  write_point_cloud :: "path \<Rightarrow> 'pcd \<Rightarrow> exn + bytes option"

section \<open>The processing stages\<close>

text \<open>
  The three stage functions, call by call. Their logging is left out: it changes neither a
  result nor the file system.
\<close>

definition clean_point_cloud :: "('pcd, 'mesh) o3d \<Rightarrow> 'pcd \<Rightarrow> exn + 'pcd" where
  "clean_point_cloud lib pcd =
     and_then (remove_statistical_outlier lib pcd 20 2.0) (\<lambda>pcd.
     remove_radius_outlier lib pcd 16 0.05)"

definition density_mask :: "('pcd, 'mesh) o3d \<Rightarrow> real list \<Rightarrow> bool list" where
  "density_mask lib densities =
     (let density_threshold = quantile lib densities 0.01
      in map (\<lambda>d. d < density_threshold) densities)"

definition create_mesh_from_point_cloud :: "('pcd, 'mesh) o3d \<Rightarrow> 'pcd \<Rightarrow> exn + 'mesh" where
  "create_mesh_from_point_cloud lib pcd =
     and_then (estimate_normals lib pcd 0.1 30) (\<lambda>pcd.
     and_then (orient_normals_consistent_tangent_plane lib pcd 15) (\<lambda>pcd.
     and_then (create_from_point_cloud_poisson lib pcd 9 0 1.1 False) (\<lambda>(mesh, densities).
       if length densities > 0
       then remove_vertices_by_mask lib mesh (density_mask lib densities)
       else Inr mesh)))"

definition clean_mesh :: "('pcd, 'mesh) o3d \<Rightarrow> 'mesh \<Rightarrow> exn + 'mesh" where
  "clean_mesh lib mesh =
     and_then (remove_degenerate_triangles lib mesh) (\<lambda>mesh.
     and_then (remove_duplicated_triangles lib mesh) (\<lambda>mesh.
     and_then (remove_duplicated_vertices lib mesh) (\<lambda>mesh.
     and_then (remove_non_manifold_edges lib mesh) (\<lambda>mesh.
     and_then (filter_smooth_simple lib mesh 5) (\<lambda>mesh.
     fill_holes lib mesh)))))"

section \<open>The request handlers\<close>

text \<open>
  The \<^verbatim>\<open>with\<close> block that saves the upload. \<open>input_path\<close> is assigned last, so the result
  carries the path only when the write went through; the file exists from the moment
  \<^verbatim>\<open>NamedTemporaryFile\<close> returned.
\<close>

definition save_upload :: "io_env \<Rightarrow> request \<Rightarrow> world \<Rightarrow> (exn + path) \<times> world" where
  "save_upload env req w =
     (case mktemp env of
        Inl e \<Rightarrow> (Inl e, w)
      | Inr base \<Rightarrow>
          (let name = base @ ''.ply''; w1 = create_file name w in
           case write_error env of
             Some e \<Rightarrow> (Inl e, w1)
           | None \<Rightarrow> (Inr name, write_file name (content req) w1)))"

text \<open>The \<^verbatim>\<open>finally\<close> clause of both handlers.\<close>

definition cleanup :: "path option \<Rightarrow> world \<Rightarrow> world" where
  "cleanup input_path w =
     (case input_path of
        None \<Rightarrow> w
      | Some p \<Rightarrow> if p \<noteq> [] \<and> path_exists p w then unlink p w else w)"

text \<open>What a library writer leaves in the file system.\<close>

definition store_written :: "path \<Rightarrow> bytes option \<Rightarrow> world \<Rightarrow> world" where
  "store_written p written w = (case written of None \<Rightarrow> w | Some b \<Rightarrow> write_file p b w)"

text \<open>
  Saving the cleaned mesh: the branch taken for \<open>return_format == 'ply'\<close>, the branch taken
  otherwise, and the conditional that chooses between them.
\<close>

definition serialize_ply :: "('pcd, 'mesh) o3d \<Rightarrow> path \<Rightarrow> 'mesh \<Rightarrow> exn + bytes option" where
  "serialize_ply lib output_path mesh = write_triangle_mesh lib output_path mesh"

definition serialize_obj :: "('pcd, 'mesh) o3d \<Rightarrow> path \<Rightarrow> 'mesh \<Rightarrow> exn + bytes option" where
  "serialize_obj lib output_path mesh = write_triangle_mesh lib output_path mesh"

definition save_cleaned_mesh ::
  "('pcd, 'mesh) o3d \<Rightarrow> string \<Rightarrow> path \<Rightarrow> 'mesh \<Rightarrow> exn + bytes option" where
  "save_cleaned_mesh lib return_format output_path mesh =
     (if return_format = ''ply'' then serialize_ply lib output_path mesh
      else serialize_obj lib output_path mesh)"

text \<open>The end of the \<^verbatim>\<open>try\<close> block of \<^verbatim>\<open>/clean-mesh\<close>: save the cleaned mesh, return the file.\<close>

definition save_and_respond ::
  "('pcd, 'mesh) o3d \<Rightarrow> request \<Rightarrow> string \<Rightarrow> path \<Rightarrow> 'mesh \<Rightarrow> world \<Rightarrow> outcome \<times> world"
where
  "save_and_respond lib req return_format input_path mesh w =
     (let output_path = str_replace input_path ''.ply'' (''_cleaned.'' @ return_format)
      in case save_cleaned_mesh lib return_format output_path mesh of
           Inl e \<Rightarrow> (Inl e, w)
         | Inr written \<Rightarrow>
             (Inr (FileResponse output_path ''application/octet-stream''
                     (path_stem (filename req) @ ''_cleaned.'' @ return_format)),
              store_written output_path written w))"

text \<open>
  The same step in the words of the specification, for comparison: one call of
  \<open>write_triangle_mesh\<close> on the output path and the mesh, the format being nothing but the
  extension of the output path and of the response's file name.
\<close>

definition respond_by_extension ::
  "('pcd, 'mesh) o3d \<Rightarrow> request \<Rightarrow> string \<Rightarrow> path \<Rightarrow> 'mesh \<Rightarrow> world \<Rightarrow> outcome \<times> world"
where
  "respond_by_extension lib req extension input_path mesh w =
     (let output_path = str_replace input_path ''.ply'' (''_cleaned.'' @ extension)
      in case write_triangle_mesh lib output_path mesh of
           Inl e \<Rightarrow> (Inl e, w)
         | Inr written \<Rightarrow>
             (Inr (FileResponse output_path ''application/octet-stream''
                     (path_stem (filename req) @ ''_cleaned.'' @ extension)),
              store_written output_path written w))"

text \<open>
  The body of the \<^verbatim>\<open>try\<close> block of \<^verbatim>\<open>/clean-mesh\<close> after the upload is saved, up to the
  cleaned mesh.
\<close>

definition mesh_of_upload :: "('pcd, 'mesh) o3d \<Rightarrow> path \<Rightarrow> world \<Rightarrow> exn + 'mesh" where
  "mesh_of_upload lib input_path w =
     and_then (read_point_cloud lib input_path (files w input_path)) (\<lambda>pcd.
       if npoints lib pcd = 0 then Inl (HTTPException 400 ''Point cloud is empty'')
       else
         and_then (clean_point_cloud lib pcd) (\<lambda>pcd.
           if npoints lib pcd < 1000
           then Inl (HTTPException 400
                  (''Too few points after cleaning ('' @ str_of_nat (npoints lib pcd)
                     @ ''). Original scan may be too noisy.''))
           else
             and_then (create_mesh_from_point_cloud lib pcd) (\<lambda>mesh.
             clean_mesh lib mesh)))"

text \<open>
  The \<^verbatim>\<open>try\<close> block of \<^verbatim>\<open>/clean-mesh\<close>: its result or exception, the value of \<open>input_path\<close>
  when it is left, and the file system.
\<close>

definition clean_mesh_try ::
  "('pcd, 'mesh) o3d \<Rightarrow> io_env \<Rightarrow> request \<Rightarrow> string \<Rightarrow> world \<Rightarrow> outcome \<times> path option \<times> world"
where
  "clean_mesh_try lib env req return_format w =
     (case save_upload env req w of
        (Inl e, w1) \<Rightarrow> (Inl e, None, w1)
      | (Inr input_path, w1) \<Rightarrow>
          (case mesh_of_upload lib input_path w1 of
             Inl e \<Rightarrow> (Inl e, Some input_path, w1)
           | Inr mesh \<Rightarrow>
               (case save_and_respond lib req return_format input_path mesh w1 of
                  (r, w2) \<Rightarrow> (r, Some input_path, w2))))"

text \<open>
  \<^verbatim>\<open>clean_mesh_endpoint\<close>. An omitted \<open>return_format\<close> takes the default of the signature.
  The \<^verbatim>\<open>except Exception\<close> clause turns whatever the \<^verbatim>\<open>try\<close> block raised into status 500.
\<close>

definition clean_mesh_endpoint ::
  "('pcd, 'mesh) o3d \<Rightarrow> io_env \<Rightarrow> request \<Rightarrow> world \<Rightarrow> outcome \<times> world" where
  "clean_mesh_endpoint lib env req w =
     (let return_format = (case return_format_query req of None \<Rightarrow> ''ply'' | Some f \<Rightarrow> f) in
      if \<not> endswith (filename req) ''.ply''
      then (Inl (HTTPException 400 ''Only PLY files are supported''), w)
      else if return_format \<notin> set [''ply'', ''obj'']
      then (Inl (HTTPException 400 (''return_format must be 'ply' or 'obj'' @ [CHR 0x27])), w)
      else
        (case clean_mesh_try lib env req return_format w of
           (Inl e, input_path, w1) \<Rightarrow>
             (Inl (HTTPException 500 (''Error processing mesh: '' @ str_exn e)),
              cleanup input_path w1)
         | (Inr response, input_path, w1) \<Rightarrow> (Inr response, cleanup input_path w1)))"

text \<open>The \<^verbatim>\<open>try\<close> block of \<^verbatim>\<open>/clean-point-cloud\<close>.\<close>

definition clean_point_cloud_try ::
  "('pcd, 'mesh) o3d \<Rightarrow> io_env \<Rightarrow> request \<Rightarrow> world \<Rightarrow> outcome \<times> path option \<times> world"
where
  "clean_point_cloud_try lib env req w =
     (case save_upload env req w of
        (Inl e, w1) \<Rightarrow> (Inl e, None, w1)
      | (Inr input_path, w1) \<Rightarrow>
          (case and_then (read_point_cloud lib input_path (files w1 input_path)) (\<lambda>pcd.
                  if npoints lib pcd = 0 then Inl (HTTPException 400 ''Point cloud is empty'')
                  else clean_point_cloud lib pcd) of
             Inl e \<Rightarrow> (Inl e, Some input_path, w1)
           | Inr pcd \<Rightarrow>
               (let output_path = str_replace input_path ''.ply'' ''_cleaned.ply''
                in case write_point_cloud lib output_path pcd of
                     Inl e \<Rightarrow> (Inl e, Some input_path, w1)
                   | Inr written \<Rightarrow>
                       (Inr (FileResponse output_path ''application/octet-stream''
                               (path_stem (filename req) @ ''_cleaned.ply'')),
                        Some input_path, store_written output_path written w1))))"

definition clean_point_cloud_endpoint ::
  "('pcd, 'mesh) o3d \<Rightarrow> io_env \<Rightarrow> request \<Rightarrow> world \<Rightarrow> outcome \<times> world" where
  "clean_point_cloud_endpoint lib env req w =
     (if \<not> endswith (filename req) ''.ply''
      then (Inl (HTTPException 400 ''Only PLY files are supported''), w)
      else
        (case clean_point_cloud_try lib env req w of
           (Inl e, input_path, w1) \<Rightarrow>
             (Inl (HTTPException 500 (''Error processing point cloud: '' @ str_exn e)),
              cleanup input_path w1)
         | (Inr response, input_path, w1) \<Rightarrow> (Inr response, cleanup input_path w1)))"

section \<open>An executable instance of the library\<close>

text \<open>
  A small instance of the library interface on integer grid points, in exact arithmetic,
  to run the handlers on concrete uploads. Its codec stores a cloud as the flat list of its
  coordinates; its filters follow the library's in shape (the radius filter keeps a point
  with more than \<open>nb_points\<close> points within the radius, itself included; the statistical
  filter keeps a point whose mean squared distance to its nearest neighbours is positive
  and below the cloud's mean plus \<open>std_ratio\<close> mean deviations). Its only exception is
  that of the vertex removal on a mask of the wrong length.
\<close>

type_synonym point = "int \<times> int \<times> int"

record tri_mesh =
  vertices :: "point list"
  triangles :: "(nat \<times> nat \<times> nat) list"

fun points_of_bytes :: "bytes \<Rightarrow> point list" where
  "points_of_bytes (x # y # z # bs) = (int x, int y, int z) # points_of_bytes bs"
| "points_of_bytes bs = []"

definition bytes_of_points :: "point list \<Rightarrow> bytes" where
  "bytes_of_points ps = concat (map (\<lambda>(x, y, z). [nat x, nat y, nat z]) ps)"

fun sq_dist :: "point \<Rightarrow> point \<Rightarrow> int" where
  "sq_dist (x, y, z) (x', y', z') = (x - x')\<^sup>2 + (y - y')\<^sup>2 + (z - z')\<^sup>2"

definition knn_mean :: "point list \<Rightarrow> nat \<Rightarrow> point \<Rightarrow> real" where
  "knn_mean pcd nb p =
     (let ds = take nb (sort (map (sq_dist p) pcd))
      in real_of_int (sum_list ds) / real (length ds))"

definition toy_statistical :: "point list \<Rightarrow> nat \<Rightarrow> real \<Rightarrow> point list" where
  "toy_statistical pcd nb std_ratio =
     (let avgs = map (knn_mean pcd nb) pcd;
          mean = sum_list avgs / real (length avgs);
          dev = sum_list (map (\<lambda>a. \<bar>a - mean\<bar>) avgs) / real (length avgs);
          threshold = mean + std_ratio * dev
      in filter (\<lambda>p. 0 < knn_mean pcd nb p \<and> knn_mean pcd nb p < threshold) pcd)"

definition toy_radius :: "point list \<Rightarrow> nat \<Rightarrow> real \<Rightarrow> point list" where
  "toy_radius pcd nb_points radius =
     filter (\<lambda>p. nb_points <
               length (filter (\<lambda>q. real_of_int (sq_dist p q) \<le> radius * radius) pcd)) pcd"

definition toy_poisson :: "point list \<Rightarrow> tri_mesh \<times> real list" where
  "toy_poisson pcd =
     (\<lparr>vertices = pcd,
       triangles = map (\<lambda>i. (i, i + 1, i + 2)) [0..<length pcd - 2]\<rparr>,
      map (\<lambda>p. real (length (filter (\<lambda>q. sq_dist p q \<le> 2) pcd))) pcd)"

text \<open>The default method of \<^verbatim>\<open>numpy.quantile\<close>: linear interpolation in the sorted array.\<close>

definition toy_quantile :: "real list \<Rightarrow> real \<Rightarrow> real" where
  "toy_quantile a q =
     (let s = sort a;
          h = real (length s - 1) * q;
          lo = nat \<lfloor>h\<rfloor>;
          hi = min (lo + 1) (length s - 1)
      in s ! lo + (h - real lo) * (s ! hi - s ! lo))"

text \<open>
  Vertices whose mask entry is set are dropped, with every triangle that has one of them
  as a corner; the corners of the other triangles are renumbered.
\<close>

definition toy_remove_vertices :: "tri_mesh \<Rightarrow> bool list \<Rightarrow> exn + tri_mesh" where
  "toy_remove_vertices mesh vertex_mask =
     (if length vertex_mask \<noteq> length (vertices mesh)
      then Inl (Exception ''vertex_mask length does not match the number of vertices'')
      else
        (let kept = (\<lambda>i. i < length vertex_mask \<and> \<not> vertex_mask ! i);
             renumber = (\<lambda>i. length (filter kept [0..<i]))
         in Inr \<lparr>vertices = map (\<lambda>i. vertices mesh ! i) (filter kept [0..<length vertex_mask]),
                  triangles =
                    map (\<lambda>(a, b, c). (renumber a, renumber b, renumber c))
                      (filter (\<lambda>(a, b, c). kept a \<and> kept b \<and> kept c) (triangles mesh))\<rparr>))"

definition bytes_of_mesh :: "tri_mesh \<Rightarrow> bytes" where
  "bytes_of_mesh mesh =
     bytes_of_points (vertices mesh) @ concat (map (\<lambda>(a, b, c). [a, b, c]) (triangles mesh))"

definition toy_o3d :: "(point list, tri_mesh) o3d" where
  "toy_o3d =
     \<lparr>read_point_cloud =
        (\<lambda>p file. Inr (case file of None \<Rightarrow> [] | Some bs \<Rightarrow> points_of_bytes bs)),
      npoints = length,
      remove_statistical_outlier = (\<lambda>pcd nb std_ratio. Inr (toy_statistical pcd nb std_ratio)),
      remove_radius_outlier = (\<lambda>pcd nb radius. Inr (toy_radius pcd nb radius)),
      estimate_normals = (\<lambda>pcd radius max_nn. Inr pcd),
      orient_normals_consistent_tangent_plane = (\<lambda>pcd k. Inr pcd),
      create_from_point_cloud_poisson =
        (\<lambda>pcd depth width scale linear_fit. Inr (toy_poisson pcd)),
      quantile = toy_quantile,
      remove_vertices_by_mask = toy_remove_vertices,
      remove_degenerate_triangles =
        (\<lambda>mesh. Inr (mesh\<lparr>triangles :=
           filter (\<lambda>(a, b, c). a \<noteq> b \<and> b \<noteq> c \<and> a \<noteq> c) (triangles mesh)\<rparr>)),
      remove_duplicated_triangles = (\<lambda>mesh. Inr (mesh\<lparr>triangles := remdups (triangles mesh)\<rparr>)),
      remove_duplicated_vertices = Inr,
      remove_non_manifold_edges = Inr,
      filter_smooth_simple = (\<lambda>mesh number_of_iterations. Inr mesh),
      fill_holes = Inr,
      write_triangle_mesh = (\<lambda>p mesh. Inr (Some (bytes_of_mesh mesh))),
      write_point_cloud =
        (\<lambda>p pcd. Inr (if pcd = [] then None else Some (bytes_of_points pcd)))\<rparr>"

text \<open>A host on which saving the upload succeeds, and one whose disk is full.\<close>

definition host_ok :: io_env where
  "host_ok = \<lparr>mktemp = Inr ''/tmp/tmpk3v9x2ab'', write_error = None\<rparr>"

definition host_disk_full :: io_env where
  "host_disk_full =
     \<lparr>mktemp = Inr ''/tmp/tmpk3v9x2ab'',
      write_error = Some (Exception ''[Errno 28] No space left on device'')\<rparr>"

definition empty_world :: world where
  "empty_world = \<lparr>files = Map.empty, events = []\<rparr>"

text \<open>
  Uploads: an empty file, a scan of 20 points (17 of them at the origin), and 2000 copies of
  one point.
\<close>

definition empty_scan :: request where
  "empty_scan = \<lparr>filename = ''scan.ply'', content = [], return_format_query = None\<rparr>"

definition small_scan :: request where
  "small_scan =
     \<lparr>filename = ''scan.ply'',
      content = concat (replicate 17 [0, 0, 0]) @ [1, 0, 0, 0, 1, 0, 9, 9, 9],
      return_format_query = Some ''obj''\<rparr>"

definition identical_points :: request where
  "identical_points =
     \<lparr>filename = ''scan.ply'', content = concat (replicate 2000 [1, 2, 3]),
      return_format_query = None\<rparr>"

section \<open>Basic facts\<close>

lemma and_then_Inl [simp]: "and_then (Inl e) f = Inl e"
  by (simp add: and_then_def)

lemma and_then_Inr [simp]: "and_then (Inr x) f = f x"
  by (simp add: and_then_def)

lemma save_upload_query [simp]:
  "save_upload env (req\<lparr>return_format_query := q\<rparr>) w = save_upload env req w"
  by (simp add: save_upload_def Let_def split: sum.split option.split)

lemma save_and_respond_query [simp]:
  "save_and_respond lib (req\<lparr>return_format_query := q\<rparr>) f input_path mesh w
     = save_and_respond lib req f input_path mesh w"
  by (simp add: save_and_respond_def Let_def split: sum.split)

lemma clean_mesh_try_query [simp]:
  "clean_mesh_try lib env (req\<lparr>return_format_query := q\<rparr>) f w = clean_mesh_try lib env req f w"
  by (simp add: clean_mesh_try_def split: prod.split sum.split)


lemma clean_mesh_endpoint_status:
  assumes "endswith (filename req) ''.ply''"
    and "return_format_query req \<in> {None, Some ''ply'', Some ''obj''}"
  shows "http_status (clean_mesh_endpoint lib env req w) = 200
       \<or> http_status (clean_mesh_endpoint lib env req w) = 500"
proof -
  obtain f where f: "(case return_format_query req of None \<Rightarrow> ''ply'' | Some g \<Rightarrow> g) = f"
    by simp
  with assms(2) have ok: "f \<in> set [''ply'', ''obj'']"
    by auto
  show ?thesis
  proof (cases "clean_mesh_try lib env req f w")
    case (fields r input_path w1)
    show ?thesis
    proof (cases r)
      case (Inl e)
      with fields assms(1) f ok show ?thesis by (simp add: clean_mesh_endpoint_def)
    next
      case (Inr response)
      with fields assms(1) f ok show ?thesis
        by (cases response) (simp add: clean_mesh_endpoint_def)
    qed
  qed
qed

subsection \<open>The executable instance on the sample uploads\<close>

lemma save_upload_host_ok:
  "save_upload host_ok req w =
     (Inr ''/tmp/tmpk3v9x2ab.ply'',
      write_file ''/tmp/tmpk3v9x2ab.ply'' (content req) (create_file ''/tmp/tmpk3v9x2ab.ply'' w))"
  by (simp add: save_upload_def host_ok_def Let_def)




lemma small_scan_points:
  "points_of_bytes (content small_scan)
     = replicate 17 (0, 0, 0) @ [(1, 0, 0), (0, 1, 0), (9, 9, 9)]"
  by (simp add: small_scan_def eval_nat_numeral)

lemma small_scan_cleaned:
  "clean_point_cloud toy_o3d (replicate 17 (0, 0, 0) @ [(1, 0, 0), (0, 1, 0), (9, 9, 9)])
     = Inr (replicate 17 (0, 0, 0))"
  by (simp add: clean_point_cloud_def toy_o3d_def toy_statistical_def toy_radius_def
      knn_mean_def eval_nat_numeral)


lemma toy_filters_only_remove:
  "remove_statistical_outlier toy_o3d p nb r = Inr p' \<Longrightarrow> npoints toy_o3d p' \<le> npoints toy_o3d p"
  "remove_radius_outlier toy_o3d p nb r = Inr p' \<Longrightarrow> npoints toy_o3d p' \<le> npoints toy_o3d p"
  by (auto simp: toy_o3d_def toy_statistical_def toy_radius_def Let_def)

text \<open>The handlers once the request has passed validation.\<close>

lemma clean_mesh_endpoint_validated:
  assumes "endswith (filename req) ''.ply''"
    and "(case return_format_query req of None \<Rightarrow> ''ply'' | Some g \<Rightarrow> g) = f"
    and "f = ''ply'' \<or> f = ''obj''"
  shows "clean_mesh_endpoint lib env req w =
     (case clean_mesh_try lib env req f w of
        (r, input_path, w1) \<Rightarrow>
          ((case r of
              Inl e \<Rightarrow> Inl (HTTPException 500 (''Error processing mesh: '' @ str_exn e))
            | Inr response \<Rightarrow> Inr response),
           cleanup input_path w1))"
  using assms by (auto simp: clean_mesh_endpoint_def Let_def split: prod.split sum.split)

lemma clean_point_cloud_endpoint_validated:
  assumes "endswith (filename req) ''.ply''"
  shows "clean_point_cloud_endpoint lib env req w =
     (case clean_point_cloud_try lib env req w of
        (r, input_path, w1) \<Rightarrow>
          ((case r of
              Inl e \<Rightarrow> Inl (HTTPException 500 (''Error processing point cloud: '' @ str_exn e))
            | Inr response \<Rightarrow> Inr response),
           cleanup input_path w1))"
  using assms by (auto simp: clean_point_cloud_endpoint_def split: prod.split sum.split)

lemma sample_names_accepted:
  "endswith (filename empty_scan) ''.ply''"
  "endswith (filename small_scan) ''.ply''"
  "endswith (filename identical_points) ''.ply''"
  by (simp_all add: empty_scan_def small_scan_def identical_points_def endswith_def)

lemma sample_formats:
  "(case return_format_query empty_scan of None \<Rightarrow> ''ply'' | Some g \<Rightarrow> g) = ''ply''"
  "(case return_format_query small_scan of None \<Rightarrow> ''ply'' | Some g \<Rightarrow> g) = ''obj''"
  by (simp_all add: empty_scan_def small_scan_def)

lemma toy_read:
  "read_point_cloud toy_o3d p (Some bs) = Inr (points_of_bytes bs)"
  by (simp add: toy_o3d_def)

lemma saved_file_content:
  "files (write_file p b w) p = Some b"
  by (simp add: write_file_def)

text \<open>
  Replacing a pattern by a longer text lengthens a string in which the pattern occurs. So
  the output path, made from the input path by replacing \<open>.ply\<close>, is never the input path.
\<close>

lemma str_replace_length:
  "old \<noteq> [] \<Longrightarrow> length old \<le> length new \<Longrightarrow> length s \<le> length (str_replace s old new)"
proof (induction s old new rule: str_replace.induct)
  case (1 s old new)
  show ?case
  proof (cases "s = []")
    case True
    then show ?thesis by simp
  next
    case False
    show ?thesis
    proof (cases "take (length old) s = old")
      case True
      with "1.IH"(1) [OF "1.prems"(1) False True "1.prems"] "1.prems" False
      show ?thesis
        by (subst str_replace.simps) simp
    next
      case neq: False
      with "1.IH"(2) [OF "1.prems"(1) False neq "1.prems"] "1.prems" False
      show ?thesis
        by (subst str_replace.simps) (cases s; simp)
    qed
  qed
qed

lemma str_replace_grows:
  "old \<noteq> [] \<Longrightarrow> length old < length new \<Longrightarrow> s = a @ old @ b
     \<Longrightarrow> length s < length (str_replace s old new)"
proof (induction a arbitrary: s)
  case Nil
  then have t: "take (length old) s = old" and ne: "s \<noteq> []" by auto
  from str_replace_length [of old new "drop (length old) s"] Nil
  have "length (drop (length old) s) \<le> length (str_replace (drop (length old) s) old new)"
    by simp
  with Nil t ne show ?case
    by (subst str_replace.simps) simp
next
  case (Cons x a)
  then have ne: "s \<noteq> []" and tl: "tl s = a @ old @ b" by auto
  show ?case
  proof (cases "take (length old) s = old")
    case True
    from str_replace_length [of old new "drop (length old) s"] Cons.prems
    have "length (drop (length old) s) \<le> length (str_replace (drop (length old) s) old new)"
      by simp
    with Cons.prems True ne show ?thesis
      by (subst str_replace.simps) simp
  next
    case False
    from Cons.IH [OF Cons.prems(1,2) tl] False ne Cons.prems(1)
    show ?thesis
      by (subst str_replace.simps) (cases s; simp)
  qed
qed

lemma output_path_differs:
  "str_replace (base @ ''.ply'') ''.ply'' (''_cleaned.'' @ f) \<noteq> base @ ''.ply''"
proof -
  have "length (base @ ''.ply'')
      < length (str_replace (base @ ''.ply'') ''.ply'' (''_cleaned.'' @ f))"
    by (rule str_replace_grows [where a = base and b = "[]"]) simp_all
  then show ?thesis by auto
qed

text \<open>
  When the upload was saved, the \<^verbatim>\<open>try\<close> block leaves \<open>input_path\<close> set and the saved file in
  place, and adds at most the output file.
\<close>

lemma save_upload_saved:
  assumes "mktemp env = Inr base" and "write_error env = None"
  shows "save_upload env req w =
     (Inr (base @ ''.ply''),
      write_file (base @ ''.ply'') (content req) (create_file (base @ ''.ply'') w))"
  using assms by (simp add: save_upload_def Let_def)

lemma clean_mesh_try_saved:
  assumes "save_upload env req w = (Inr p, w1)"
  shows "\<exists>r w2. clean_mesh_try lib env req f w = (r, Some p, w2)
     \<and> (w2 = w1 \<or> (\<exists>b. w2 = write_file (str_replace p ''.ply'' (''_cleaned.'' @ f)) b w1))"
  using assms
  by (auto simp: clean_mesh_try_def save_and_respond_def store_written_def Let_def
      split: sum.split option.split)

lemma clean_point_cloud_try_saved:
  assumes "save_upload env req w = (Inr p, w1)"
  shows "\<exists>r w2. clean_point_cloud_try lib env req w = (r, Some p, w2)
     \<and> (w2 = w1 \<or> (\<exists>b. w2 = write_file (str_replace p ''.ply'' ''_cleaned.ply'') b w1))"
  using assms
  by (auto simp: clean_point_cloud_try_def store_written_def Let_def
      split: sum.split option.split)

text \<open>
  So a request whose upload was saved ends with the temporary file unlinked, once, as the
  last file-system event, with the output file, if one was written, in place, and with
  every other file as it was.
\<close>

lemma saved_upload_unlinked_by_clean_mesh:
  assumes "endswith (filename req) ''.ply''"
    and "(case return_format_query req of None \<Rightarrow> ''ply'' | Some g \<Rightarrow> g) = f"
    and "f = ''ply'' \<or> f = ''obj''"
    and "mktemp env = Inr base" and "write_error env = None"
  shows "\<exists>written.
      (written = []
       \<or> written = [Wrote (str_replace (base @ ''.ply'') ''.ply'' (''_cleaned.'' @ f))]
         \<and> path_exists (str_replace (base @ ''.ply'') ''.ply'' (''_cleaned.'' @ f))
              (snd (clean_mesh_endpoint lib env req w)))
    \<and> events (snd (clean_mesh_endpoint lib env req w))
        = events w @ [Created (base @ ''.ply''), Wrote (base @ ''.ply'')] @ written
           @ [Unlinked (base @ ''.ply'')]
    \<and> files (snd (clean_mesh_endpoint lib env req w)) (base @ ''.ply'') = None
    \<and> (\<forall>q. q \<noteq> base @ ''.ply''
           \<longrightarrow> q \<noteq> str_replace (base @ ''.ply'') ''.ply'' (''_cleaned.'' @ f)
           \<longrightarrow> files (snd (clean_mesh_endpoint lib env req w)) q = files w q)"
proof -
  let ?p = "base @ ''.ply''"
  let ?w1 = "write_file ?p (content req) (create_file ?p w)"
  from clean_mesh_try_saved [OF save_upload_saved [OF assms(4,5)], where lib = lib and f = f]
  obtain r w2 where t: "clean_mesh_try lib env req f w = (r, Some ?p, w2)"
    and w2: "w2 = ?w1 \<or> (\<exists>b. w2 = write_file (str_replace ?p ''.ply'' (''_cleaned.'' @ f)) b ?w1)"
    by blast
  from w2 have c: "cleanup (Some ?p) w2 = unlink ?p w2"
    by (auto simp: cleanup_def path_exists_def write_file_def create_file_def split: if_splits)
  have e: "snd (clean_mesh_endpoint lib env req w) = unlink ?p w2"
    by (simp add: clean_mesh_endpoint_validated [OF assms(1-3)] t c)
  from w2 output_path_differs [of base f] show ?thesis
    unfolding e by (auto simp: unlink_def write_file_def create_file_def path_exists_def)
qed

lemma saved_upload_unlinked_by_clean_point_cloud:
  assumes "endswith (filename req) ''.ply''"
    and "mktemp env = Inr base" and "write_error env = None"
  shows "\<exists>written.
      (written = []
       \<or> written = [Wrote (str_replace (base @ ''.ply'') ''.ply'' ''_cleaned.ply'')]
         \<and> path_exists (str_replace (base @ ''.ply'') ''.ply'' ''_cleaned.ply'')
              (snd (clean_point_cloud_endpoint lib env req w)))
    \<and> events (snd (clean_point_cloud_endpoint lib env req w))
        = events w @ [Created (base @ ''.ply''), Wrote (base @ ''.ply'')] @ written
           @ [Unlinked (base @ ''.ply'')]
    \<and> files (snd (clean_point_cloud_endpoint lib env req w)) (base @ ''.ply'') = None
    \<and> (\<forall>q. q \<noteq> base @ ''.ply''
           \<longrightarrow> q \<noteq> str_replace (base @ ''.ply'') ''.ply'' ''_cleaned.ply''
           \<longrightarrow> files (snd (clean_point_cloud_endpoint lib env req w)) q = files w q)"
proof -
  let ?p = "base @ ''.ply''"
  let ?w1 = "write_file ?p (content req) (create_file ?p w)"
  from clean_point_cloud_try_saved [OF save_upload_saved [OF assms(2,3)], where lib = lib]
  obtain r w2 where t: "clean_point_cloud_try lib env req w = (r, Some ?p, w2)"
    and w2: "w2 = ?w1 \<or> (\<exists>b. w2 = write_file (str_replace ?p ''.ply'' ''_cleaned.ply'') b ?w1)"
    by blast
  from w2 have c: "cleanup (Some ?p) w2 = unlink ?p w2"
    by (auto simp: cleanup_def path_exists_def write_file_def create_file_def split: if_splits)
  have e: "snd (clean_point_cloud_endpoint lib env req w) = unlink ?p w2"
    by (simp add: clean_point_cloud_endpoint_validated [OF assms(1)] t c)
  from w2 output_path_differs [of base "''ply''"] show ?thesis
    unfolding e by (auto simp: unlink_def write_file_def create_file_def path_exists_def)
qed

section \<open>Request validation\<close>

text \<open>
  C4. A request to \<^verbatim>\<open>/clean-mesh\<close> or \<^verbatim>\<open>/clean-point-cloud\<close> whose file name does not end in
  \<open>.ply\<close> is answered with status 400, and the file system is left exactly as it was: no
  temporary file is created and nothing is written or deleted.
\<close>

theorem bad_extension_rejected_before_any_write:
  assumes "\<not> endswith (filename req) ''.ply''"
  shows "http_status (clean_mesh_endpoint lib env req w) = 400
     \<and> snd (clean_mesh_endpoint lib env req w) = w
     \<and> http_status (clean_point_cloud_endpoint lib env req w) = 400
     \<and> snd (clean_point_cloud_endpoint lib env req w) = w"
  using assms by (simp add: clean_mesh_endpoint_def clean_point_cloud_endpoint_def Let_def)

theorem bad_extension_rejected_before_any_write_witness:
  "\<not> endswith (filename (small_scan\<lparr>filename := ''scan.obj''\<rparr>)) ''.ply''
   \<and> http_status (clean_mesh_endpoint toy_o3d host_ok (small_scan\<lparr>filename := ''scan.obj''\<rparr>)
        empty_world) = 400
   \<and> snd (clean_mesh_endpoint toy_o3d host_ok (small_scan\<lparr>filename := ''scan.obj''\<rparr>)
        empty_world) = empty_world
   \<and> http_status (clean_point_cloud_endpoint toy_o3d host_ok
        (small_scan\<lparr>filename := ''scan.obj''\<rparr>) empty_world) = 400
   \<and> snd (clean_point_cloud_endpoint toy_o3d host_ok (small_scan\<lparr>filename := ''scan.obj''\<rparr>)
        empty_world) = empty_world"
proof -
  have bad: "\<not> endswith (filename (small_scan\<lparr>filename := ''scan.obj''\<rparr>)) ''.ply''"
    by (simp add: endswith_def)
  from bad bad_extension_rejected_before_any_write [OF bad, of toy_o3d host_ok empty_world]
  show ?thesis by simp
qed

text \<open>
  C7. A request to \<^verbatim>\<open>/clean-mesh\<close> with a \<open>.ply\<close> file name and a \<open>return_format\<close> that is
  neither \<open>ply\<close> nor \<open>obj\<close> is answered with status 400 and the file system is left as it
  was; a request without \<open>return_format\<close> is handled as one with \<open>return_format=ply\<close>.
\<close>

theorem bad_return_format_rejected_before_any_write:
  assumes "endswith (filename req) ''.ply''"
    and "return_format_query req = Some f"
    and "f \<noteq> ''ply''"
    and "f \<noteq> ''obj''"
  shows "http_status (clean_mesh_endpoint lib env req w) = 400
     \<and> snd (clean_mesh_endpoint lib env req w) = w
     \<and> clean_mesh_endpoint lib env (req\<lparr>return_format_query := None\<rparr>) w
         = clean_mesh_endpoint lib env (req\<lparr>return_format_query := Some ''ply''\<rparr>) w"
  using assms by (simp add: clean_mesh_endpoint_def Let_def)

theorem bad_return_format_rejected_before_any_write_witness:
  "endswith (filename (small_scan\<lparr>return_format_query := Some ''stl''\<rparr>)) ''.ply''
   \<and> http_status (clean_mesh_endpoint toy_o3d host_ok
        (small_scan\<lparr>return_format_query := Some ''stl''\<rparr>) empty_world) = 400
   \<and> snd (clean_mesh_endpoint toy_o3d host_ok
        (small_scan\<lparr>return_format_query := Some ''stl''\<rparr>) empty_world) = empty_world"
proof -
  have ply: "endswith (filename (small_scan\<lparr>return_format_query := Some ''stl''\<rparr>)) ''.ply''"
    by (simp add: small_scan_def endswith_def)
  from ply bad_return_format_rejected_before_any_write
    [OF ply, of "''stl''" toy_o3d host_ok empty_world]
  show ?thesis by simp
qed

section \<open>Cleaning the point cloud\<close>

text \<open>
  C5. Cleaning a point cloud is statistical outlier removal with 20 neighbours and
  standard-deviation ratio 2.0, followed, on its result, by radius outlier removal with 16
  points and radius 0.05, and nothing else; an exception of the first step ends the
  cleaning.
\<close>

theorem clean_point_cloud_two_filters:
  "clean_point_cloud lib pcd =
     (case remove_statistical_outlier lib pcd 20 2.0 of
        Inl e \<Rightarrow> Inl e
      | Inr inliers \<Rightarrow> remove_radius_outlier lib inliers 16 0.05)"
  unfolding clean_point_cloud_def and_then_def by (rule refl)

text \<open>
  C6. Cleaning never adds points: when neither library filter returns more points than it
  was given, the cleaned cloud has at most as many points as the cloud that was cleaned.
\<close>

theorem clean_point_cloud_never_adds:
  assumes stat: "\<And>p nb r p'. remove_statistical_outlier lib p nb r = Inr p'
                   \<Longrightarrow> npoints lib p' \<le> npoints lib p"
    and rad: "\<And>p nb r p'. remove_radius_outlier lib p nb r = Inr p'
                   \<Longrightarrow> npoints lib p' \<le> npoints lib p"
    and run: "clean_point_cloud lib pcd = Inr cleaned"
  shows "npoints lib cleaned \<le> npoints lib pcd"
proof -
  from run obtain inliers where
    s: "remove_statistical_outlier lib pcd 20 2.0 = Inr inliers" and
    r: "remove_radius_outlier lib inliers 16 0.05 = Inr cleaned"
    by (auto simp: clean_point_cloud_def and_then_def split: sum.splits)
  from stat [OF s] rad [OF r] show ?thesis by simp
qed

theorem clean_point_cloud_never_adds_witness:
  "clean_point_cloud toy_o3d (replicate 17 (0, 0, 0) @ [(1, 0, 0), (0, 1, 0), (9, 9, 9)])
     = Inr (replicate 17 (0, 0, 0))
   \<and> npoints toy_o3d (replicate 17 (0, 0, 0))
       \<le> npoints toy_o3d (replicate 17 (0, 0, 0) @ [(1, 0, 0), (0, 1, 0), (9, 9, 9)])"
  using clean_point_cloud_never_adds [of toy_o3d, OF toy_filters_only_remove small_scan_cleaned]
    small_scan_cleaned
  by simp

section \<open>Reconstruction and serialisation\<close>

text \<open>
  C9. After Poisson reconstruction has returned a mesh and its per-vertex densities, a
  non-empty density array makes the handler remove the vertices by a mask that is set at
  exactly the positions whose density is strictly below the 0.01 quantile of that same
  array; an empty density array leaves the mesh as reconstructed, with no removal.
\<close>

theorem density_filter_mask:
  assumes "estimate_normals lib pcd 0.1 30 = Inr pcd1"
    and "orient_normals_consistent_tangent_plane lib pcd1 15 = Inr pcd2"
    and "create_from_point_cloud_poisson lib pcd2 9 0 1.1 False = Inr (mesh, densities)"
  shows "create_mesh_from_point_cloud lib pcd =
           (if densities = [] then Inr mesh
            else remove_vertices_by_mask lib mesh (density_mask lib densities))
     \<and> length (density_mask lib densities) = length densities
     \<and> (\<forall>i < length densities.
           density_mask lib densities ! i \<longleftrightarrow> densities ! i < quantile lib densities 0.01)"
  using assms by (simp add: create_mesh_from_point_cloud_def density_mask_def)

theorem density_filter_mask_witness:
  "create_from_point_cloud_poisson toy_o3d [(0, 0, 0), (1, 0, 0), (0, 1, 0), (9, 9, 9)] 9 0 1.1 False
     = Inr (\<lparr>vertices = [(0, 0, 0), (1, 0, 0), (0, 1, 0), (9, 9, 9)],
              triangles = [(0, 1, 2), (1, 2, 3)]\<rparr>, [3, 3, 3, 1])
   \<and> quantile toy_o3d [3, 3, 3, 1] 0.01 = 1.06
   \<and> density_mask toy_o3d [3, 3, 3, 1] = [False, False, False, True]
   \<and> create_mesh_from_point_cloud toy_o3d [(0, 0, 0), (1, 0, 0), (0, 1, 0), (9, 9, 9)]
       = Inr \<lparr>vertices = [(0, 0, 0), (1, 0, 0), (0, 1, 0)], triangles = [(0, 1, 2)]\<rparr>"
proof -
  have normals: "estimate_normals toy_o3d [(0, 0, 0), (1, 0, 0), (0, 1, 0), (9, 9, 9)] 0.1 30
      = Inr [(0, 0, 0), (1, 0, 0), (0, 1, 0), (9, 9, 9)]"
    by (simp add: toy_o3d_def)
  have oriented:
    "orient_normals_consistent_tangent_plane toy_o3d [(0, 0, 0), (1, 0, 0), (0, 1, 0), (9, 9, 9)] 15
      = Inr [(0, 0, 0), (1, 0, 0), (0, 1, 0), (9, 9, 9)]"
    by (simp add: toy_o3d_def)
  have poisson:
    "create_from_point_cloud_poisson toy_o3d [(0, 0, 0), (1, 0, 0), (0, 1, 0), (9, 9, 9)] 9 0 1.1 False
      = Inr (\<lparr>vertices = [(0, 0, 0), (1, 0, 0), (0, 1, 0), (9, 9, 9)],
               triangles = [(0, 1, 2), (1, 2, 3)]\<rparr>, [3, 3, 3, 1])"
    by (simp add: toy_o3d_def toy_poisson_def eval_nat_numeral)
  have q: "quantile toy_o3d [3, 3, 3, 1] 0.01 = 1.06"
    by (simp add: toy_o3d_def toy_quantile_def)
  have m: "density_mask toy_o3d [3, 3, 3, 1] = [False, False, False, True]"
    by (simp add: density_mask_def toy_o3d_def toy_quantile_def)
  have removed:
    "remove_vertices_by_mask toy_o3d
       \<lparr>vertices = [(0, 0, 0), (1, 0, 0), (0, 1, 0), (9, 9, 9)],
        triangles = [(0, 1, 2), (1, 2, 3)]\<rparr> [False, False, False, True]
      = Inr \<lparr>vertices = [(0, 0, 0), (1, 0, 0), (0, 1, 0)], triangles = [(0, 1, 2)]\<rparr>"
    by (simp add: toy_o3d_def toy_remove_vertices_def eval_nat_numeral)
  from density_filter_mask [OF normals oriented poisson] poisson q m removed
  show ?thesis by simp
qed

text \<open>
  C10. In \<^verbatim>\<open>/clean-mesh\<close> the branch that saves a \<open>ply\<close> and the branch that saves an \<open>obj\<close>
  are the same call of \<open>write_triangle_mesh\<close> on the output path and the mesh, so whatever
  the format the step is that one call, and the end of the handler is the single path
  in which the format is only the extension of the output path and of the response's
  file name.
\<close>

theorem serialization_branches_coincide:
  "serialize_ply lib output_path mesh = serialize_obj lib output_path mesh
   \<and> save_cleaned_mesh lib return_format output_path mesh
       = write_triangle_mesh lib output_path mesh
   \<and> save_and_respond lib req return_format input_path mesh w
       = respond_by_extension lib req return_format input_path mesh w"
  by (simp add: serialize_ply_def serialize_obj_def save_cleaned_mesh_def save_and_respond_def
      respond_by_extension_def)

section \<open>Errors raised inside the handlers\<close>

text \<open>
  C1 (an upload that decodes to zero points is answered with status 400). The handlers
  raise the 400 inside the \<^verbatim>\<open>try\<close> block, where \<^verbatim>\<open>except Exception\<close> catches it and raises
  status 500 in its place: for the empty upload both handlers answer 500, the 400 surviving
  only inside the detail text.
\<close>

theorem empty_cloud_answered_500:
  "npoints toy_o3d (points_of_bytes (content empty_scan)) = 0
   \<and> http_status (clean_mesh_endpoint toy_o3d host_ok empty_scan empty_world) = 500
   \<and> http_detail (clean_mesh_endpoint toy_o3d host_ok empty_scan empty_world)
       = ''Error processing mesh: 400: Point cloud is empty''
   \<and> http_status (clean_point_cloud_endpoint toy_o3d host_ok empty_scan empty_world) = 500
   \<and> http_detail (clean_point_cloud_endpoint toy_o3d host_ok empty_scan empty_world)
       = ''Error processing point cloud: 400: Point cloud is empty''"
proof -
  have n: "npoints toy_o3d (points_of_bytes (content empty_scan)) = 0"
    by (simp add: toy_o3d_def empty_scan_def)
  have mesh: "fst (clean_mesh_try toy_o3d host_ok empty_scan ''ply'' empty_world)
      = Inl (HTTPException 400 ''Point cloud is empty'')"
    by (simp add: clean_mesh_try_def save_upload_host_ok mesh_of_upload_def saved_file_content
        toy_read n)
  have cloud: "fst (clean_point_cloud_try toy_o3d host_ok empty_scan empty_world)
      = Inl (HTTPException 400 ''Point cloud is empty'')"
    by (simp add: clean_point_cloud_try_def save_upload_host_ok saved_file_content toy_read n)
  from mesh have
    "http_status (clean_mesh_endpoint toy_o3d host_ok empty_scan empty_world) = 500
     \<and> http_detail (clean_mesh_endpoint toy_o3d host_ok empty_scan empty_world)
         = ''Error processing mesh: 400: Point cloud is empty''"
    by (auto simp: clean_mesh_endpoint_validated [OF sample_names_accepted(1) sample_formats(1)]
        str_of_nat.simps split: prod.splits)
  moreover from cloud have
    "http_status (clean_point_cloud_endpoint toy_o3d host_ok empty_scan empty_world) = 500
     \<and> http_detail (clean_point_cloud_endpoint toy_o3d host_ok empty_scan empty_world)
         = ''Error processing point cloud: 400: Point cloud is empty''"
    by (auto simp: clean_point_cloud_endpoint_validated [OF sample_names_accepted(1)]
        str_of_nat.simps split: prod.splits)
  ultimately show ?thesis using n by simp
qed

text \<open>
  C2 (a cloud left with fewer than 1000 points by the cleaning is answered by \<^verbatim>\<open>/clean-mesh\<close>
  with status 400 and the remaining count). The same \<^verbatim>\<open>except Exception\<close> clause turns this
  400 into status 500 too: the scan of 20 points keeps 17 of them and is answered 500.
\<close>

theorem sparse_cloud_answered_500:
  "clean_point_cloud toy_o3d (points_of_bytes (content small_scan))
     = Inr (replicate 17 (0, 0, 0))
   \<and> http_status (clean_mesh_endpoint toy_o3d host_ok small_scan empty_world) = 500
   \<and> http_detail (clean_mesh_endpoint toy_o3d host_ok small_scan empty_world)
       = ''Error processing mesh: 400: Too few points after cleaning (17). Original scan may be too noisy.''"
proof -
  have cleaned: "clean_point_cloud toy_o3d (points_of_bytes (content small_scan))
      = Inr (replicate 17 (0, 0, 0))"
    by (simp only: small_scan_points small_scan_cleaned)
  have counts: "npoints toy_o3d (points_of_bytes (content small_scan)) = 20"
    "npoints toy_o3d (replicate 17 (0, 0, 0)) = 17"
    by (simp_all add: toy_o3d_def small_scan_points)
  have "fst (clean_mesh_try toy_o3d host_ok small_scan ''obj'' empty_world)
      = Inl (HTTPException 400
          ''Too few points after cleaning (17). Original scan may be too noisy.'')"
    by (simp add: clean_mesh_try_def save_upload_host_ok mesh_of_upload_def saved_file_content
        toy_read cleaned counts str_of_nat.simps)
  then have "http_status (clean_mesh_endpoint toy_o3d host_ok small_scan empty_world) = 500
     \<and> http_detail (clean_mesh_endpoint toy_o3d host_ok small_scan empty_world)
       = ''Error processing mesh: 400: Too few points after cleaning (17). Original scan may be too noisy.''"
    by (auto simp: clean_mesh_endpoint_validated [OF sample_names_accepted(2) sample_formats(2)]
        str_of_nat.simps split: prod.splits)
  with cleaned show ?thesis by simp
qed

section \<open>The temporary file\<close>

text \<open>
  C8 (on every exit path the temporary input file is deleted exactly once before the
  handler returns). \<open>input_path\<close> is assigned after \<^verbatim>\<open>tmp_input.write(content)\<close>, so when
  that write raises, the \<^verbatim>\<open>finally\<close> clause finds \<open>input_path\<close> unset and deletes nothing:
  on a host whose disk is full both handlers answer 500 and leave the temporary file
  they created, without a single unlink.
\<close>

theorem failed_write_leaves_temporary_file:
  "http_status (clean_mesh_endpoint toy_o3d host_disk_full small_scan empty_world) = 500
   \<and> events (snd (clean_mesh_endpoint toy_o3d host_disk_full small_scan empty_world))
       = [Created ''/tmp/tmpk3v9x2ab.ply'']
   \<and> path_exists ''/tmp/tmpk3v9x2ab.ply''
        (snd (clean_mesh_endpoint toy_o3d host_disk_full small_scan empty_world))
   \<and> http_status (clean_point_cloud_endpoint toy_o3d host_disk_full small_scan empty_world) = 500
   \<and> events (snd (clean_point_cloud_endpoint toy_o3d host_disk_full small_scan empty_world))
       = [Created ''/tmp/tmpk3v9x2ab.ply'']
   \<and> path_exists ''/tmp/tmpk3v9x2ab.ply''
        (snd (clean_point_cloud_endpoint toy_o3d host_disk_full small_scan empty_world))"
proof -
  have saved: "save_upload host_disk_full small_scan empty_world
      = (Inl (Exception ''[Errno 28] No space left on device''),
         create_file ''/tmp/tmpk3v9x2ab.ply'' empty_world)"
    by (simp add: save_upload_def host_disk_full_def Let_def)
  have mesh: "clean_mesh_try toy_o3d host_disk_full small_scan ''obj'' empty_world
      = (Inl (Exception ''[Errno 28] No space left on device''), None,
         create_file ''/tmp/tmpk3v9x2ab.ply'' empty_world)"
    by (simp add: clean_mesh_try_def saved)
  have cloud: "clean_point_cloud_try toy_o3d host_disk_full small_scan empty_world
      = (Inl (Exception ''[Errno 28] No space left on device''), None,
         create_file ''/tmp/tmpk3v9x2ab.ply'' empty_world)"
    by (simp add: clean_point_cloud_try_def saved)
  have m: "clean_mesh_endpoint toy_o3d host_disk_full small_scan empty_world
      = (Inl (HTTPException 500 ''Error processing mesh: [Errno 28] No space left on device''),
         create_file ''/tmp/tmpk3v9x2ab.ply'' empty_world)"
    by (simp add: clean_mesh_endpoint_validated [OF sample_names_accepted(2) sample_formats(2)]
        mesh cleanup_def)
  have c: "clean_point_cloud_endpoint toy_o3d host_disk_full small_scan empty_world
      = (Inl (HTTPException 500
                ''Error processing point cloud: [Errno 28] No space left on device''),
         create_file ''/tmp/tmpk3v9x2ab.ply'' empty_world)"
    by (simp add: clean_point_cloud_endpoint_validated [OF sample_names_accepted(2)]
        cloud cleanup_def)
  show ?thesis
    unfolding m c by (simp add: create_file_def empty_world_def path_exists_def)
qed

section \<open>The point-cloud endpoint and degenerate clouds\<close>




end
